theory Spec2Isabelle
  imports Complex_Main "HOL-Library.Word" "HOL-Library.Log_Nat"
begin

section \<open>Data model\<close>

text \<open>
  A JavaScript string is a sequence of UTF-16 code units. The rupee sign of the price
  placeholder, U+20B9, is one code unit.
\<close>

type_synonym jsstring = "16 word list"

text \<open>
  The three text fields shared by the add form (\<open>formData\<close>), the edit form
  (\<open>editData\<close>) and a wishlist item; an item extends them with its key and its
  \<open>bought\<close> flag, so that the spread \<open>{ ...item, name: n, link: l, price: p }\<close> is a
  record update. The key is written \<open>item_id\<close> (the source's \<open>id\<close>).
\<close>

record fields =
  name :: jsstring
  link :: jsstring
  price :: jsstring

record item = fields +
  item_id :: int
  bought :: bool

section \<open>The browser: object store, legacy slot, console\<close>

text \<open>
  The object store \<open>items\<close> of the database \<open>WishlistDB\<close> has the key path \<open>id\<close> and no
  key generator: it holds at most one record per key and \<open>getAll\<close> lists the records by
  ascending key. It is modelled as the list that \<open>getAll\<close> returns. \<open>localStorage\<close> is
  reduced to the one slot the program reads, \<open>wishlistItems\<close>; the console keeps the
  first argument of each \<open>console.error\<close> call.
\<close>

record browser =
  objectStore :: "item list"
  localStorage :: "jsstring option"
  console :: "string list"

definition console_error :: "string \<Rightarrow> browser \<Rightarrow> browser" where
  "console_error msg b = b\<lparr>console := console b @ [msg]\<rparr>"

text \<open>\<open>store.put(item)\<close>: insert by key, replacing the record that has the same key.\<close>

fun store_put :: "item \<Rightarrow> item list \<Rightarrow> item list" where
  "store_put x [] = [x]"
| "store_put x (y # ys) =
     (if item_id x < item_id y then x # y # ys
      else if item_id x = item_id y then x # ys
      else y # store_put x ys)"

text \<open>\<open>store.delete(id)\<close>: remove the record with that key, if there is one.\<close>

definition store_delete :: "int \<Rightarrow> item list \<Rightarrow> item list" where
  "store_delete k s = filter (\<lambda>y. item_id y \<noteq> k) s"

text \<open>\<open>store.clear()\<close>.\<close>

definition store_clear :: "item list \<Rightarrow> item list" where
  "store_clear s = []"

text \<open>The record a list holds under a key: the first one with that key.\<close>

definition record_at :: "item list \<Rightarrow> int \<Rightarrow> item option" where
  "record_at xs k = find (\<lambda>x. item_id x = k) xs"

text \<open>
  Every failure of the program starts in the storage engine. One call of a data-access
  function opens the database and runs one transaction; what the engine does in that call
  is a parameter of the model:
  \<^item> \<open>OpenFails\<close>: the open request fires \<open>onerror\<close>;
  \<^item> \<open>RequestFails n\<close>: the \<open>n\<close>-th request placed in the transaction (from 0) fires
    \<open>onerror\<close>. No handler of the program calls \<open>preventDefault\<close>, so the engine then
    aborts the transaction and undoes what its earlier requests wrote;
  \<^item> \<open>CommitFails\<close>: every request succeeds and the commit fails: the transaction is
    aborted, an \<open>abort\<close> event is fired and no \<open>complete\<close> event;
  \<^item> \<open>NoFault\<close>: the transaction completes.
\<close>

datatype idb_fault = NoFault | OpenFails | RequestFails nat | CommitFails

datatype js_error = Error string | SyntaxError

text \<open>
  The state in which an awaited promise ends. \<open>Pending\<close> is a promise that is never
  settled: the \<open>await\<close> on it never resumes.
\<close>

datatype 'a promise = Resolved 'a | Rejected js_error | Pending

section \<open>utils/indexedDB.js\<close>

definition initDB :: "idb_fault \<Rightarrow> unit promise" where
  "initDB f =
     (if f = OpenFails then Rejected (Error ''Failed to open IndexedDB'')
      else Resolved ())"

text \<open>
  \<open>getAllItems\<close>. The \<open>await initDB()\<close> is inside the \<open>try\<close>, so an open error reaches the
  \<open>catch\<close>, which logs and returns \<open>[]\<close>. The promise of the read is returned without
  \<open>await\<close>: the function has left the \<open>try\<close> block when that promise settles, and the
  promise of \<open>getAllItems\<close> takes its state, a rejection included.
\<close>

definition getAllItems :: "idb_fault \<Rightarrow> browser \<Rightarrow> item list promise \<times> browser" where
  "getAllItems f b =
     (case initDB f of
        Rejected e \<Rightarrow> (Resolved [], console_error ''Error getting items:'' b)
      | Pending \<Rightarrow> (Pending, b)
      | Resolved db \<Rightarrow>
          (if f = RequestFails 0
           then (Rejected (Error ''Failed to get items from IndexedDB''), b)
           else (Resolved (objectStore b), b)))"

text \<open>
  \<open>deleteItem\<close>. The promise is resolved by the request's \<open>onsuccess\<close>, before the
  transaction commits.
\<close>

definition deleteItem :: "idb_fault \<Rightarrow> int \<Rightarrow> browser \<Rightarrow> unit promise \<times> browser" where
  "deleteItem f k b =
     (case initDB f of
        Rejected e \<Rightarrow> (Rejected e, console_error ''Error deleting item:'' b)
      | Pending \<Rightarrow> (Pending, b)
      | Resolved db \<Rightarrow>
          (if f = RequestFails 0
           then (Rejected (Error ''Failed to delete item from IndexedDB''), b)
           else if f = CommitFails then (Resolved (), b)
           else (Resolved (), b\<lparr>objectStore := store_delete k (objectStore b)\<rparr>)))"

text \<open>
  The \<open>put\<close> requests of \<open>saveAllItems\<close>, placed in the order of \<open>items.map\<close> and run in
  that order on the transaction's working copy \<open>w\<close> of the store; \<open>n\<close> is the number of
  the next request. \<open>None\<close>: a request failed, its \<open>onerror\<close> rejected the item's promise
  and the transaction is aborted. Every item carries an integer \<open>id\<close>, a valid key, so
  \<open>store.put\<close> itself never throws.
\<close>

fun put_requests :: "idb_fault \<Rightarrow> nat \<Rightarrow> item list \<Rightarrow> item list \<Rightarrow> item list option" where
  "put_requests f n [] w = Some w"
| "put_requests f n (x # xs) w =
     (if f = RequestFails n then None
      else put_requests f (Suc n) xs (store_put x w))"

text \<open>
  \<open>saveAllItems\<close>: one read-write transaction; request 0 is \<open>store.clear()\<close>, request
  \<open>i + 1\<close> the \<open>put\<close> of the \<open>i\<close>-th item. \<open>resolve\<close> is called by the transaction's
  \<open>oncomplete\<close> only, which is set once every \<open>put\<close> has succeeded; nothing listens to
  \<open>abort\<close>, so after a failed commit the promise stays pending.
\<close>

definition saveAllItems :: "idb_fault \<Rightarrow> item list \<Rightarrow> browser \<Rightarrow> unit promise \<times> browser" where
  "saveAllItems f its b =
     (case initDB f of
        Rejected e \<Rightarrow> (Rejected e, console_error ''Error saving all items:'' b)
      | Pending \<Rightarrow> (Pending, b)
      | Resolved db \<Rightarrow>
          (if f = RequestFails 0 then (Rejected (Error ''Failed to clear IndexedDB''), b)
           else (case put_requests f 1 its (store_clear (objectStore b)) of
                   None \<Rightarrow> (Rejected (Error ''Failed to add item''), b)
                 | Some w \<Rightarrow>
                     (if f = CommitFails then (Pending, b)
                      else (Resolved (), b\<lparr>objectStore := w\<rparr>)))))"

section \<open>App.jsx: state and handlers\<close>

record app =
  items :: "item list"
  isLoading :: bool
  formData :: fields
  editingId :: "int option"
  editData :: fields

text \<open>
  \<open>String.prototype.trim\<close> removes the white space and line terminator code units of
  ECMAScript from both ends.
\<close>

definition is_white_space :: "16 word \<Rightarrow> bool" where
  "is_white_space c \<longleftrightarrow>
     c = 0x0009 \<or> c = 0x000A \<or> c = 0x000B \<or> c = 0x000C \<or> c = 0x000D \<or> c = 0x0020 \<or>
     c = 0x00A0 \<or> c = 0x1680 \<or> (0x2000 \<le> c \<and> c \<le> 0x200A) \<or> c = 0x2028 \<or>
     c = 0x2029 \<or> c = 0x202F \<or> c = 0x205F \<or> c = 0x3000 \<or> c = 0xFEFF"

definition trim :: "jsstring \<Rightarrow> jsstring" where
  "trim s = rev (dropWhile is_white_space (rev (dropWhile is_white_space s)))"

text \<open>A string is truthy when it is not empty.\<close>

definition truthy :: "jsstring \<Rightarrow> bool" where
  "truthy s \<longleftrightarrow> s \<noteq> []"

definition empty_fields :: fields where
  "empty_fields = \<lparr>name = [], link = [], price = []\<rparr>"

text \<open>The state on mount, from the \<open>useState\<close> calls.\<close>

definition initial_app :: app where
  "initial_app =
     \<lparr>items = [], isLoading = True, formData = empty_fields, editingId = None,
      editData = empty_fields\<rparr>"

text \<open>\<open>handleAddItem\<close>; \<open>now\<close> is the value of \<open>Date.now()\<close>.\<close>

definition handleAddItem :: "int \<Rightarrow> app \<Rightarrow> app" where
  "handleAddItem now s =
     (if truthy (trim (name (formData s))) \<and> truthy (trim (link (formData s))) \<and>
         truthy (trim (price (formData s)))
      then
        (let newItem = \<lparr>name = trim (name (formData s)), link = trim (link (formData s)),
                         price = trim (price (formData s)), item_id = now, bought = False\<rparr>
         in s\<lparr>items := items s @ [newItem], formData := empty_fields\<rparr>)
      else s)"

definition handleSaveEdit :: "int \<Rightarrow> app \<Rightarrow> app" where
  "handleSaveEdit k s =
     (if truthy (trim (name (editData s))) \<and> truthy (trim (link (editData s))) \<and>
         truthy (trim (price (editData s)))
      then
        s\<lparr>items :=
             map (\<lambda>it. if item_id it = k
                        then it\<lparr>name := trim (name (editData s)),
                                link := trim (link (editData s)),
                                price := trim (price (editData s))\<rparr>
                        else it)
                 (items s),
          editingId := None,
          editData := empty_fields\<rparr>
      else s)"

definition handleToggleBought :: "int \<Rightarrow> app \<Rightarrow> app" where
  "handleToggleBought k s =
     s\<lparr>items := map (\<lambda>it. if item_id it = k then it\<lparr>bought := \<not> bought it\<rparr> else it)
                     (items s)\<rparr>"

text \<open>
  \<open>handleDeleteItem\<close>: the \<open>try\<close> branch and the \<open>catch\<close> branch both filter the list.
\<close>

definition handleDeleteItem ::
    "idb_fault \<Rightarrow> int \<Rightarrow> app \<times> browser \<Rightarrow> unit promise \<times> app \<times> browser" where
  "handleDeleteItem f k sb =
     (case deleteItem f k (snd sb) of
        (Resolved u, b') \<Rightarrow>
          (Resolved (),
           (fst sb)\<lparr>items := filter (\<lambda>it. item_id it \<noteq> k) (items (fst sb))\<rparr>, b')
      | (Rejected e, b') \<Rightarrow>
          (Resolved (),
           (fst sb)\<lparr>items := filter (\<lambda>it. item_id it \<noteq> k) (items (fst sb))\<rparr>,
           console_error ''Error deleting item:'' b')
      | (Pending, b') \<Rightarrow> (Pending, fst sb, b'))"

text \<open>
  \<open>loadItems\<close>, the effect run on mount. \<open>JSON_parse\<close> is the platform's \<open>JSON.parse\<close>
  on the contents of the legacy slot: the list of records it denotes, or the
  \<open>SyntaxError\<close> it throws (a text that denotes another JSON value than a list of
  item records is outside the data model). \<open>f1\<close> is what the engine does during
  \<open>getAllItems\<close>, \<open>f2\<close> during \<open>saveAllItems\<close>. Every exit of the \<open>try\<close> passes
  through the \<open>finally\<close>, which clears \<open>isLoading\<close>; an \<open>await\<close> that never resumes
  does not.
\<close>

definition loadItems ::
    "(jsstring \<Rightarrow> js_error + item list) \<Rightarrow> idb_fault \<Rightarrow> idb_fault \<Rightarrow> app \<times> browser \<Rightarrow>
       unit promise \<times> app \<times> browser" where
  "loadItems JSON_parse f1 f2 sb =
     (let s0 = (fst sb)\<lparr>isLoading := True\<rparr> in
      case getAllItems f1 (snd sb) of
        (Pending, b1) \<Rightarrow> (Pending, s0, b1)
      | (Rejected e, b1) \<Rightarrow>
          (Resolved (), s0\<lparr>isLoading := False\<rparr>, console_error ''Error loading items:'' b1)
      | (Resolved loadedItems, b1) \<Rightarrow>
          (let s1 = s0\<lparr>items := loadedItems\<rparr> in
           if length loadedItems = 0 then
             (case localStorage b1 of
                None \<Rightarrow> (Resolved (), s1\<lparr>isLoading := False\<rparr>, b1)
              | Some savedItems \<Rightarrow>
                  (if truthy savedItems then
                     (case JSON_parse savedItems of
                        Inl e \<Rightarrow>
                          (Resolved (), s1\<lparr>isLoading := False\<rparr>,
                           console_error ''Error loading items:'' b1)
                      | Inr parsedItems \<Rightarrow>
                          (if length parsedItems > 0 then
                             (case saveAllItems f2 parsedItems b1 of
                                (Pending, b2) \<Rightarrow> (Pending, s1, b2)
                              | (Rejected e, b2) \<Rightarrow>
                                  (Resolved (), s1\<lparr>isLoading := False\<rparr>,
                                   console_error ''Error loading items:'' b2)
                              | (Resolved u, b2) \<Rightarrow>
                                  (Resolved (), s1\<lparr>items := parsedItems, isLoading := False\<rparr>,
                                   b2\<lparr>localStorage := None\<rparr>))
                           else (Resolved (), s1\<lparr>isLoading := False\<rparr>, b1)))
                   else (Resolved (), s1\<lparr>isLoading := False\<rparr>, b1)))
           else (Resolved (), s1\<lparr>isLoading := False\<rparr>, b1)))"

section \<open>App.jsx: the total of the items not bought\<close>

text \<open>
  The Number values that \<open>calculateTotal\<close> meets: a finite binary64 value, which is a
  rational and here never negative, \<open>Infinity\<close> and \<open>NaN\<close>.
\<close>

datatype number = Num rat | Infinity | NaN

text \<open>For \<open>x > 0\<close>, the \<open>e\<close> with \<open>2 ^ e \<le> x < 2 ^ (e + 1)\<close>.\<close>

definition exponent :: "rat \<Rightarrow> int" where
  "exponent x =
     (let (p, q) = quotient_of x;
          d = bitlen p - bitlen q
      in if 2 powi d \<le> x then d else d - 1)"

definition round_half_even :: "rat \<Rightarrow> int" where
  "round_half_even r =
     (let n = \<lfloor>r\<rfloor>; d = r - of_int n
      in if d < 1 / 2 then n else if 1 / 2 < d then n + 1 else if even n then n else n + 1)"

text \<open>
  The binary64 value of a rational \<open>x \<ge> 0\<close>, rounding to nearest, ties to even: 53
  significant bits, the least exponent \<open>- 1022\<close> (below it the spacing stays
  \<open>2 ^ - 1074\<close>), and \<open>Infinity\<close> from \<open>2 ^ 1024\<close> on.
\<close>

definition to_double :: "rat \<Rightarrow> number" where
  "to_double x =
     (if x = 0 then Num 0
      else
        (let e = max (exponent x) (- 1022);
             q = 2 powi (e - 52);
             y = of_int (round_half_even (x / q)) * q
         in if 2 powi 1024 \<le> y then Infinity else Num y))"

text \<open>The operator \<open>+\<close> on these values.\<close>

fun js_add :: "number \<Rightarrow> number \<Rightarrow> number" where
  "js_add NaN v = NaN"
| "js_add v NaN = NaN"
| "js_add Infinity v = Infinity"
| "js_add v Infinity = Infinity"
| "js_add (Num a) (Num b) = to_double (a + b)"

definition is_digit :: "16 word \<Rightarrow> bool" where
  "is_digit c \<longleftrightarrow> 0x30 \<le> c \<and> c \<le> 0x39"

definition full_stop :: "16 word" where
  "full_stop = 0x2E"

definition digits_value :: "jsstring \<Rightarrow> nat" where
  "digits_value ds = foldl (\<lambda>n c. 10 * n + (unat c - 48)) 0 ds"

text \<open>
  \<open>parseFloat\<close> on a string of digits and full stops, which is all that
  \<open>calculateTotal\<close> passes to it (white space, signs, exponents and the letters of
  \<open>Infinity\<close> are removed before): the longest prefix of the form \<open>digits\<close>,
  \<open>digits . digits\<close> (the second group may be empty) or \<open>. digits\<close> is read as a decimal
  and rounded; with no such prefix the result is \<open>NaN\<close>. (Past 20 significant digits
  ECMAScript lets an engine round from a truncated decimal; the correctly rounded value
  is modelled.)
\<close>

definition parseFloat :: "jsstring \<Rightarrow> number" where
  "parseFloat s =
     (let ip = takeWhile is_digit s;
          fp = (case dropWhile is_digit s of
                  [] \<Rightarrow> []
                | c # cs \<Rightarrow> if c = full_stop then takeWhile is_digit cs else [])
      in if ip = [] \<and> fp = [] then NaN
         else to_double (of_nat (digits_value (ip @ fp)) / 10 ^ length fp))"

text \<open>\<open>v || 0\<close> on a number: \<open>NaN\<close> and \<open>0\<close> are falsy.\<close>

definition or_zero :: "number \<Rightarrow> number" where
  "or_zero v = (if v = NaN \<or> v = Num 0 then Num 0 else v)"

text \<open>\<open>s.replace(/[^0-9.]/g, '')\<close>.\<close>

definition strip_non_numeric :: "jsstring \<Rightarrow> jsstring" where
  "strip_non_numeric s = filter (\<lambda>c. is_digit c \<or> c = full_stop) s"

definition calculateTotal :: "app \<Rightarrow> number" where
  "calculateTotal s =
     foldl (\<lambda>total it. js_add total (or_zero (parseFloat (strip_non_numeric (price it)))))
       (Num 0) (filter (\<lambda>it. \<not> bought it) (items s))"

text \<open>
  The total as the specification words it: each item that is not bought contributes the
  number parsed from its price without the characters other than digits and \<open>.\<close>, a
  price that does not parse contributes 0, and the contributions are added up from 0 in
  the order of the list.
\<close>

definition contribution :: "jsstring \<Rightarrow> number" where
  "contribution p =
     (case parseFloat (filter (\<lambda>c. c \<in> {0x30, 0x31, 0x32, 0x33, 0x34, 0x35, 0x36, 0x37,
                                          0x38, 0x39, 0x2E}) p) of
        NaN \<Rightarrow> Num 0
      | v \<Rightarrow> v)"

definition unpurchased_total :: "item list \<Rightarrow> number" where
  "unpurchased_total its =
     foldl js_add (Num 0) (map (\<lambda>it. contribution (price it)) (filter (\<lambda>it. bought it = False) its))"

text \<open>The whole number that the digits of a price write in decimal.\<close>

definition price_digits :: "jsstring \<Rightarrow> nat" where
  "price_digits p = digits_value (filter is_digit p)"

section \<open>Example data\<close>

text \<open>
  The item of the specification's toggle example, the two items of its total scenario
  (the second one already bought), and a browser whose store holds the first item.
\<close>

definition item_A :: item where
  "item_A = \<lparr>name = [0x41], link = [0x68, 0x74, 0x74, 0x70, 0x3A, 0x2F, 0x2F, 0x78],
             price = [0x24, 0x31, 0x30], item_id = 1, bought = False\<rparr>"

definition headphones :: item where
  "headphones =
     \<lparr>name = [0x48, 0x65, 0x61, 0x64, 0x70, 0x68, 0x6F, 0x6E, 0x65, 0x73],
      link = [0x68, 0x74, 0x74, 0x70, 0x3A, 0x2F, 0x2F, 0x78],
      price = [0x20B9, 0x31, 0x2C, 0x32, 0x39, 0x39], item_id = 1000, bought = False\<rparr>"

definition speakers :: item where
  "speakers =
     \<lparr>name = [0x53, 0x70, 0x65, 0x61, 0x6B, 0x65, 0x72, 0x73],
      link = [0x68, 0x74, 0x74, 0x70, 0x3A, 0x2F, 0x2F, 0x79],
      price = [0x20B9, 0x32, 0x2C, 0x35, 0x30, 0x30], item_id = 1001, bought = True\<rparr>"

definition browser_A :: browser where
  "browser_A = \<lparr>objectStore = [item_A], localStorage = None, console = []\<rparr>"

text \<open>
  A legacy slot: the JSON text of the list that holds \<open>item_A\<close>, and \<open>JSON.parse\<close> on
  the texts of the examples (the text above, \<open>[]\<close>, and texts that are not JSON).
\<close>

definition legacy_text :: jsstring where
  "legacy_text =
     [0x5B, 0x7B, 0x22, 0x69, 0x64, 0x22, 0x3A, 0x31, 0x2C, 0x22, 0x6E, 0x61, 0x6D, 0x65,
      0x22, 0x3A, 0x22, 0x41, 0x22, 0x2C, 0x22, 0x6C, 0x69, 0x6E, 0x6B, 0x22, 0x3A, 0x22,
      0x68, 0x74, 0x74, 0x70, 0x3A, 0x2F, 0x2F, 0x78, 0x22, 0x2C, 0x22, 0x70, 0x72, 0x69,
      0x63, 0x65, 0x22, 0x3A, 0x22, 0x24, 0x31, 0x30, 0x22, 0x2C, 0x22, 0x62, 0x6F, 0x75,
      0x67, 0x68, 0x74, 0x22, 0x3A, 0x66, 0x61, 0x6C, 0x73, 0x65, 0x7D, 0x5D]"

definition JSON_parse_example :: "jsstring \<Rightarrow> js_error + item list" where
  "JSON_parse_example raw =
     (if raw = legacy_text then Inr [item_A]
      else if raw = [0x5B, 0x5D] then Inr []
      else Inl SyntaxError)"

definition browser_legacy :: browser where
  "browser_legacy = \<lparr>objectStore = [], localStorage = Some legacy_text, console = []\<rparr>"

text \<open>
  The total scenario: on a mounted application the user adds the headphones at time 1000
  and the speakers at time 1001, typing white space around two of the fields
  (\<open>scenario_added\<close>, both items still to buy), and then marks the speakers as bought
  (\<open>scenario\<close>).
\<close>

definition scenario_added :: app where
  "scenario_added =
     handleAddItem 1001
       ((handleAddItem 1000
           (initial_app\<lparr>isLoading := False,
              formData := \<lparr>name = name headphones, link = link headphones,
                           price = [0x20] @ price headphones\<rparr>\<rparr>))
        \<lparr>formData := \<lparr>name = name speakers, link = link speakers @ [0x0A],
                      price = price speakers\<rparr>\<rparr>)"

definition scenario :: app where
  "scenario = handleToggleBought 1001 scenario_added"

text \<open>
  A list with prices that are not whole numbers: 10.50 rupees, the speakers (bought),
  a price without any digit (``free'') and ``0.25 off'', in this order.
\<close>

definition basket :: app where
  "basket =
     initial_app
       \<lparr>isLoading := False,
        items :=
          [item_A\<lparr>price := [0x20B9, 0x31, 0x30, 0x2E, 0x35, 0x30]\<rparr>,
           speakers,
           headphones\<lparr>price := [0x66, 0x72, 0x65, 0x65]\<rparr>,
           item_A\<lparr>item_id := 2, price := [0x30, 0x2E, 0x32, 0x35, 0x20, 0x6F, 0x66, 0x66]\<rparr>]\<rparr>"

text \<open>An edit in progress on the headphones, with white space typed around two fields.\<close>

definition editing :: app where
  "editing =
     \<lparr>items = [headphones, speakers], isLoading = False, formData = empty_fields,
      editingId = Some 1000,
      editData = \<lparr>name = [0x20, 0x45, 0x61, 0x72, 0x62, 0x75, 0x64, 0x73],
                   link = [0x68, 0x74, 0x74, 0x70, 0x3A, 0x2F, 0x2F, 0x7A],
                   price = [0x20B9, 0x39, 0x39, 0x39, 0x20]\<rparr>\<rparr>"

section \<open>Load-all\<close>

lemma getAllItems_open_error:
  "getAllItems OpenFails b = (Resolved [], console_error ''Error getting items:'' b)"
  by (simp add: getAllItems_def initDB_def)

text \<open>
  C1. Load-all is claimed never to fail visibly: an open error and a read error alike
  give the empty collection. The open error does. The read error does not: when the
  \<open>getAll\<close> request fires \<open>onerror\<close>, the promise of \<open>getAllItems\<close> is rejected with
  ``Failed to get items from IndexedDB'', nothing is logged and no collection is
  returned.
\<close>

theorem getAllItems_read_error_rejects:
  "getAllItems (RequestFails 0) b =
     (Rejected (Error ''Failed to get items from IndexedDB''), b)"
  by (simp add: getAllItems_def initDB_def)

section \<open>The object store\<close>

lemma record_at_store_put:
  "record_at (store_put x s) k = (if k = item_id x then Some x else record_at s k)"
  by (induction s) (auto simp: record_at_def)

lemma keys_store_put:
  "set (map item_id (store_put x s)) = insert (item_id x) (set (map item_id s))"
  by (induction s) auto

lemma sorted_store_put:
  "sorted_wrt (<) (map item_id s) \<Longrightarrow> sorted_wrt (<) (map item_id (store_put x s))"
proof (induction s)
  case Nil
  then show ?case by simp
next
  case (Cons y ys)
  have "\<forall>k \<in> set (map item_id (store_put x ys)). item_id y < k"
    if "item_id y < item_id x"
    using Cons.prems that by (auto simp: keys_store_put simp del: set_map)
  with Cons show ?case by auto
qed

lemma put_requests_Some:
  "put_requests f n its w = Some w' \<Longrightarrow> w' = foldl (\<lambda>w x. store_put x w) w its"
  by (induction its arbitrary: n w) (auto split: if_splits)

lemma put_requests_no_failure:
  "(\<forall>m. f \<noteq> RequestFails m) \<Longrightarrow> put_requests f n its w = Some (foldl (\<lambda>w x. store_put x w) w its)"
  by (induction its arbitrary: n w) auto

lemma record_at_Nil: "record_at [] k = None"
  by (simp add: record_at_def)

lemma record_at_Cons:
  "record_at (x # xs) k = (if item_id x = k then Some x else record_at xs k)"
  by (simp add: record_at_def)

lemma record_at_append:
  "record_at (xs @ ys) k =
     (case record_at xs k of None \<Rightarrow> record_at ys k | Some x \<Rightarrow> Some x)"
  by (induction xs) (simp_all add: record_at_Nil record_at_Cons)

lemma record_at_foldl_put:
  "record_at (foldl (\<lambda>w x. store_put x w) w its) k =
     (case record_at (rev its) k of None \<Rightarrow> record_at w k | Some x \<Rightarrow> Some x)"
proof (induction its arbitrary: w)
  case Nil
  then show ?case by (simp add: record_at_Nil)
next
  case (Cons x xs)
  have "record_at (foldl (\<lambda>w x. store_put x w) (store_put x w) xs) k =
          (case record_at (rev xs) k of None \<Rightarrow> record_at (store_put x w) k | Some y \<Rightarrow> Some y)"
    by (rule Cons.IH)
  also have "\<dots> = (case record_at (rev xs @ [x]) k of None \<Rightarrow> record_at w k | Some y \<Rightarrow> Some y)"
    by (auto simp: record_at_append record_at_store_put record_at_Nil record_at_Cons
             split: option.splits)
  finally show ?case by simp
qed

lemma sorted_foldl_put:
  "sorted_wrt (<) (map item_id w) \<Longrightarrow>
     sorted_wrt (<) (map item_id (foldl (\<lambda>w x. store_put x w) w its))"
  by (induction its arbitrary: w) (auto intro: sorted_store_put)

lemma record_at_mem:
  "distinct (map item_id xs) \<Longrightarrow> x \<in> set xs \<longleftrightarrow> record_at xs (item_id x) = Some x"
  by (induction xs) (auto simp: record_at_def)

lemma record_at_distinct_eq:
  assumes "distinct (map item_id xs)" "distinct (map item_id ys)"
    and "\<And>k. record_at xs k = record_at ys k"
  shows "set xs = set ys"
proof -
  have "x \<in> set xs \<longleftrightarrow> x \<in> set ys" for x
    using assms by (simp add: record_at_mem)
  then show ?thesis by blast
qed

lemma put_requests_fails:
  "n < length its \<Longrightarrow> put_requests (RequestFails (m + n)) m its w = None"
proof (induction its arbitrary: m n w)
  case Nil
  then show ?case by simp
next
  case (Cons x xs)
  show ?case
  proof (cases n)
    case 0
    then show ?thesis by simp
  next
    case (Suc n')
    with Cons.prems have "n' < length xs" by simp
    then have "put_requests (RequestFails (Suc m + n')) (Suc m) xs (store_put x w) = None"
      by (rule Cons.IH)
    with Suc show ?thesis by simp
  qed
qed

lemma objectStore_console_error: "objectStore (console_error msg b) = objectStore b"
  by (simp add: console_error_def)

lemma saveAllItems_cases:
  "fst (saveAllItems f its b) = Resolved () \<and>
     snd (saveAllItems f its b) = b\<lparr>objectStore := foldl (\<lambda>w x. store_put x w) [] its\<rparr> \<or>
   fst (saveAllItems f its b) \<noteq> Resolved () \<and>
     objectStore (snd (saveAllItems f its b)) = objectStore b"
  by (auto simp: saveAllItems_def initDB_def store_clear_def objectStore_console_error
           dest: put_requests_Some split: option.splits)

lemma saved_store:
  assumes "st = foldl (\<lambda>w x. store_put x w) [] its"
  shows "distinct (map item_id st)"
    and "record_at st k = record_at (rev its) k"
    and "distinct (map item_id its) \<Longrightarrow> set st = set its"
proof -
  have "sorted_wrt (<) (map item_id st)"
    unfolding assms by (rule sorted_foldl_put) simp
  then show d: "distinct (map item_id st)"
    by (simp add: strict_sorted_iff)
  show r: "record_at st k = record_at (rev its) k" for k
    unfolding assms by (simp add: record_at_foldl_put record_at_Nil split: option.splits)
  show "set st = set its" if "distinct (map item_id its)"
  proof -
    from that have "distinct (map item_id (rev its))"
      by (simp add: rev_map [symmetric])
    with d r have "set st = set (rev its)"
      by (intro record_at_distinct_eq) 
    then show ?thesis by simp
  qed
qed

lemma getAllItems_no_fault: "getAllItems NoFault b = (Resolved (objectStore b), b)"
  by (simp add: getAllItems_def initDB_def)

section \<open>Replace-all\<close>

text \<open>
  C2. Replace-all is atomic. Whatever the engine does and whatever the store held: a
  failure of the \<open>put\<close> of the item at index \<open>n\<close>, after the clear and the earlier
  writes, rejects the call and leaves the browser as it was; whenever the call does not
  resolve, the store holds its prior contents and a following load-all returns them; and
  when the call resolves, the store holds the input collection keyed by \<open>id\<close>: one record
  per key, for each key the last item of the input with that key, hence exactly the
  items of the input when their keys are distinct.
\<close>

theorem saveAllItems_atomic:
  "(n < length its \<longrightarrow>
      saveAllItems (RequestFails (Suc n)) its b = (Rejected (Error ''Failed to add item''), b)) \<and>
   (fst (saveAllItems f its b) \<noteq> Resolved () \<longrightarrow>
      objectStore (snd (saveAllItems f its b)) = objectStore b \<and>
      fst (getAllItems NoFault (snd (saveAllItems f its b))) = Resolved (objectStore b)) \<and>
   (fst (saveAllItems f its b) = Resolved () \<longrightarrow>
      distinct (map item_id (objectStore (snd (saveAllItems f its b)))) \<and>
      (\<forall>k. record_at (objectStore (snd (saveAllItems f its b))) k = record_at (rev its) k) \<and>
      (distinct (map item_id its) \<longrightarrow> set (objectStore (snd (saveAllItems f its b))) = set its))"
proof (intro conjI impI)
  assume "n < length its"
  then have "put_requests (RequestFails (1 + n)) 1 its (store_clear (objectStore b)) = None"
    by (rule put_requests_fails)
  then show "saveAllItems (RequestFails (Suc n)) its b = (Rejected (Error ''Failed to add item''), b)"
    by (simp add: saveAllItems_def initDB_def)
next
  assume "fst (saveAllItems f its b) \<noteq> Resolved ()"
  with saveAllItems_cases [of f its b]
  show "objectStore (snd (saveAllItems f its b)) = objectStore b" by simp
  then show "fst (getAllItems NoFault (snd (saveAllItems f its b))) = Resolved (objectStore b)"
    by (simp add: getAllItems_no_fault)
next
  assume ok: "fst (saveAllItems f its b) = Resolved ()"
  with saveAllItems_cases [of f its b]
  have st: "objectStore (snd (saveAllItems f its b)) = foldl (\<lambda>w x. store_put x w) [] its"
    by simp
  show "distinct (map item_id (objectStore (snd (saveAllItems f its b))))"
    by (rule saved_store(1) [OF st])
  show "\<forall>k. record_at (objectStore (snd (saveAllItems f its b))) k = record_at (rev its) k"
    by (simp add: saved_store(2) [OF st])
  show "set (objectStore (snd (saveAllItems f its b))) = set its" if "distinct (map item_id its)"
    using that by (rule saved_store(3) [OF st])
qed

theorem saveAllItems_atomic_witness:
  "(1::nat) < length [headphones, speakers] \<and>
   saveAllItems (RequestFails 2) [headphones, speakers] browser_A =
     (Rejected (Error ''Failed to add item''), browser_A) \<and>
   fst (saveAllItems (RequestFails 2) [headphones, speakers] browser_A) \<noteq> Resolved () \<and>
   fst (getAllItems NoFault (snd (saveAllItems (RequestFails 2) [headphones, speakers] browser_A))) =
     Resolved [item_A] \<and>
   fst (saveAllItems NoFault [headphones, speakers] browser_A) = Resolved () \<and>
   distinct (map item_id [headphones, speakers]) \<and>
   set (objectStore (snd (saveAllItems NoFault [headphones, speakers] browser_A))) =
     set [headphones, speakers]"
  using saveAllItems_atomic [of 1 "[headphones, speakers]" browser_A "RequestFails 2"]
    saveAllItems_atomic [of 1 "[headphones, speakers]" browser_A NoFault]
  by (simp add: saveAllItems_def initDB_def store_clear_def headphones_def speakers_def
        browser_A_def)

text \<open>
  C3. Round trip. After a \<open>saveAllItems\<close> that resolved, a \<open>getAllItems\<close> whose open and
  read succeed returns the collection that was saved, keyed by \<open>id\<close>: its records have
  distinct keys, under each key it holds the last item of the input with that key
  (\<open>put\<close> overwrites), and when the keys of the input are distinct it has exactly the
  records of the input, whatever their order.
\<close>

theorem save_then_load_round_trip:
  assumes "fst (saveAllItems f its b) = Resolved ()"
  shows "fst (getAllItems NoFault (snd (saveAllItems f its b))) =
           Resolved (objectStore (snd (saveAllItems f its b))) \<and>
         distinct (map item_id (objectStore (snd (saveAllItems f its b)))) \<and>
         (\<forall>k. record_at (objectStore (snd (saveAllItems f its b))) k = record_at (rev its) k) \<and>
         (distinct (map item_id its) \<longrightarrow>
            set (objectStore (snd (saveAllItems f its b))) = set its)"
proof -
  from assms saveAllItems_cases [of f its b]
  have st: "objectStore (snd (saveAllItems f its b)) = foldl (\<lambda>w x. store_put x w) [] its"
    by simp
  show ?thesis
    using saved_store [OF st] by (simp add: getAllItems_no_fault)
qed

theorem save_then_load_round_trip_witness:
  "fst (saveAllItems NoFault [headphones, item_A, headphones\<lparr>bought := True\<rparr>] browser_A) =
     Resolved () \<and>
   fst (getAllItems NoFault
          (snd (saveAllItems NoFault [headphones, item_A, headphones\<lparr>bought := True\<rparr>] browser_A))) =
     Resolved [item_A, headphones\<lparr>bought := True\<rparr>] \<and>
   record_at [item_A, headphones\<lparr>bought := True\<rparr>] 1000 = Some (headphones\<lparr>bought := True\<rparr>) \<and>
   fst (saveAllItems NoFault [speakers, headphones] browser_A) = Resolved () \<and>
   distinct (map item_id [speakers, headphones]) \<and>
   fst (getAllItems NoFault (snd (saveAllItems NoFault [speakers, headphones] browser_A))) =
     Resolved [headphones, speakers] \<and>
   set (objectStore (snd (saveAllItems NoFault [speakers, headphones] browser_A))) =
     set [speakers, headphones]"
  using save_then_load_round_trip
    [of NoFault "[headphones, item_A, headphones\<lparr>bought := True\<rparr>]" browser_A]
    save_then_load_round_trip [of NoFault "[speakers, headphones]" browser_A]
  by (simp add: saveAllItems_def initDB_def store_clear_def headphones_def item_A_def
        speakers_def browser_A_def record_at_def getAllItems_def)

section \<open>Delete-by-id\<close>

lemma store_delete_absent:
  "k \<notin> item_id ` set s \<Longrightarrow> store_delete k s = s"
  by (induction s) (auto simp: store_delete_def)

text \<open>
  C6. Deleting a key that the store does not hold is not an error: unless the engine
  fails the open or the delete request, \<open>deleteItem\<close> resolves and the browser is as
  before; and the store is unchanged whatever the engine does.
\<close>

theorem deleteItem_absent_key:
  assumes "k \<notin> item_id ` set (objectStore b)"
  shows "(f \<noteq> OpenFails \<and> f \<noteq> RequestFails 0 \<longrightarrow> deleteItem f k b = (Resolved (), b)) \<and>
         objectStore (snd (deleteItem f k b)) = objectStore b"
  using assms
  by (simp add: deleteItem_def initDB_def store_delete_absent objectStore_console_error)

theorem deleteItem_absent_key_witness:
  "1000 \<notin> item_id ` set (objectStore browser_A) \<and>
   deleteItem NoFault 1000 browser_A = (Resolved (), browser_A) \<and>
   objectStore (snd (deleteItem OpenFails 1000 browser_A)) = [item_A]"
  using deleteItem_absent_key [of 1000 browser_A NoFault]
    deleteItem_absent_key [of 1000 browser_A OpenFails]
  by (simp add: browser_A_def item_A_def)


section \<open>Startup and the legacy migration\<close>

lemma localStorage_console_error: "localStorage (console_error msg b) = localStorage b"
  by (simp add: console_error_def)

lemma getAllItems_browser:
  "objectStore (snd (getAllItems f b)) = objectStore b"
  "localStorage (snd (getAllItems f b)) = localStorage b"
  by (simp_all add: getAllItems_def initDB_def objectStore_console_error
        localStorage_console_error)

lemma saveAllItems_localStorage:
  "localStorage (snd (saveAllItems f its b)) = localStorage b"
  by (simp add: saveAllItems_def initDB_def localStorage_console_error split: option.splits)

lemma saveAllItems_resolved:
  assumes "fst (saveAllItems f its b) = Resolved ()"
  shows "saveAllItems f its b =
           (Resolved (), b\<lparr>objectStore := foldl (\<lambda>w x. store_put x w) [] its\<rparr>)"
  using assms saveAllItems_cases [of f its b]
  by (cases "saveAllItems f its b") simp

lemma getAllItems_Resolved_browser:
  assumes "fst (getAllItems f b) = Resolved xs"
  shows "\<exists>b1. getAllItems f b = (Resolved xs, b1) \<and> objectStore b1 = objectStore b \<and>
           localStorage b1 = localStorage b"
  using assms getAllItems_browser [of f b]
  by (cases "getAllItems f b") simp

text \<open>
  C5. The migration is a no-op on bad input. On a startup with an empty store whose
  legacy slot is absent, is the empty string, holds text that \<open>JSON.parse\<close> rejects, or
  holds the empty list, whatever the engine does: \<open>loadItems\<close> resolves (no error leaves
  it), the loading flag is cleared, and neither the store nor the legacy slot changes.
\<close>

theorem loadItems_legacy_no_op:
  fixes JSON_parse f1 f2 s b
  defines "r \<equiv> loadItems JSON_parse f1 f2 (s, b)"
  assumes "objectStore b = []"
    and "case localStorage b of
           None \<Rightarrow> True
         | Some raw \<Rightarrow> raw = [] \<or> isl (JSON_parse raw) \<or> JSON_parse raw = Inr []"
  shows "fst r = Resolved () \<and>
         objectStore (snd (snd r)) = objectStore b \<and>
         localStorage (snd (snd r)) = localStorage b \<and>
         isLoading (fst (snd r)) = False"
proof (cases "getAllItems f1 b")
  case (Pair p b1)
  then have b1: "objectStore b1 = objectStore b" "localStorage b1 = localStorage b"
    using getAllItems_browser [of f1 b] by simp_all
  from Pair assms(2) have p: "p = Resolved [] \<or> (\<exists>e. p = Rejected e)"
    by (auto simp: getAllItems_def initDB_def split: if_splits)
  then show ?thesis
  proof
    assume "p = Resolved []"
    with Pair b1 assms(3) show ?thesis
      unfolding r_def
      by (auto simp: loadItems_def Let_def truthy_def objectStore_console_error
            localStorage_console_error isl_def split: option.splits sum.splits)
  next
    assume "\<exists>e. p = Rejected e"
    with Pair b1 show ?thesis
      unfolding r_def
      by (auto simp: loadItems_def Let_def objectStore_console_error localStorage_console_error)
  qed
qed

theorem loadItems_legacy_no_op_witness:
  "objectStore (browser_legacy\<lparr>localStorage := Some [0x7B]\<rparr>) = [] \<and>
   isl (JSON_parse_example [0x7B]) \<and>
   loadItems JSON_parse_example NoFault NoFault
       (initial_app, browser_legacy\<lparr>localStorage := Some [0x7B]\<rparr>) =
     (Resolved (), initial_app\<lparr>isLoading := False\<rparr>,
      \<lparr>objectStore = [], localStorage = Some [0x7B], console = [''Error loading items:'']\<rparr>) \<and>
   JSON_parse_example [0x5B, 0x5D] = Inr [] \<and>
   snd (snd (loadItems JSON_parse_example (RequestFails 0) NoFault
       (initial_app, browser_legacy\<lparr>localStorage := Some [0x5B, 0x5D]\<rparr>))) =
     \<lparr>objectStore = [], localStorage = Some [0x5B, 0x5D], console = [''Error loading items:'']\<rparr> \<and>
   loadItems JSON_parse_example OpenFails NoFault
       (initial_app, browser_legacy\<lparr>localStorage := None\<rparr>) =
     (Resolved (), initial_app\<lparr>isLoading := False\<rparr>,
      \<lparr>objectStore = [], localStorage = None, console = [''Error getting items:'']\<rparr>)"
  using loadItems_legacy_no_op [of "browser_legacy\<lparr>localStorage := Some [0x7B]\<rparr>"
      JSON_parse_example NoFault NoFault initial_app]
    loadItems_legacy_no_op [of "browser_legacy\<lparr>localStorage := Some [0x5B, 0x5D]\<rparr>"
      JSON_parse_example "RequestFails 0" NoFault initial_app]
    loadItems_legacy_no_op [of "browser_legacy\<lparr>localStorage := None\<rparr>"
      JSON_parse_example OpenFails NoFault initial_app]
  by (simp add: loadItems_def getAllItems_def initDB_def browser_legacy_def
        JSON_parse_example_def legacy_text_def truthy_def initial_app_def console_error_def)

text \<open>
  C4, as stated, promises the import on every startup where load-all returns the empty
  collection and the legacy slot holds a non-empty list. When the replace-all of the
  import is rejected (here the engine fails its \<open>clear\<close> request), \<open>loadItems\<close> catches
  the error: the store stays empty, the in-memory list stays empty and the legacy slot
  keeps its text.
\<close>

theorem loadItems_migration_counterexample:
  "fst (getAllItems NoFault browser_legacy) = Resolved [] \<and>
   localStorage browser_legacy = Some legacy_text \<and>
   JSON_parse_example legacy_text = Inr [item_A] \<and>
   loadItems JSON_parse_example NoFault (RequestFails 0) (initial_app, browser_legacy) =
     (Resolved (), initial_app\<lparr>isLoading := False\<rparr>,
      \<lparr>objectStore = [], localStorage = Some legacy_text,
       console = [''Error loading items:'']\<rparr>) \<and>
   items (initial_app\<lparr>isLoading := False\<rparr>) \<noteq> [item_A]"
  by (simp add: loadItems_def getAllItems_def saveAllItems_def initDB_def store_clear_def
        browser_legacy_def JSON_parse_example_def legacy_text_def truthy_def
        initial_app_def console_error_def)

text \<open>
  C4, amended. If load-all returns the empty collection, the legacy slot holds text that
  deserializes to a non-empty list, and the replace-all of that list resolves, then after
  \<open>loadItems\<close> the in-memory list is that list, the legacy slot is cleared, and the store
  holds the list keyed by \<open>id\<close> (distinct keys, the last item under each key; exactly the
  legacy items when their keys are distinct). And if load-all returns a non-empty
  collection, nothing is imported: the in-memory list is what was loaded, and the store
  and the legacy slot are unchanged, whatever the slot holds.
\<close>

theorem loadItems_migration:
  fixes JSON_parse f1 f2 s b
  defines "r \<equiv> loadItems JSON_parse f1 f2 (s, b)"
  shows "(fst (getAllItems f1 b) = Resolved [] \<and> localStorage b = Some raw \<and> raw \<noteq> [] \<and>
          JSON_parse raw = Inr its \<and> its \<noteq> [] \<and>
          fst (saveAllItems f2 its (snd (getAllItems f1 b))) = Resolved () \<longrightarrow>
            fst r = Resolved () \<and> items (fst (snd r)) = its \<and>
            localStorage (snd (snd r)) = None \<and>
            distinct (map item_id (objectStore (snd (snd r)))) \<and>
            (\<forall>k. record_at (objectStore (snd (snd r))) k = record_at (rev its) k) \<and>
            (distinct (map item_id its) \<longrightarrow> set (objectStore (snd (snd r))) = set its)) \<and>
         (fst (getAllItems f1 b) = Resolved loaded \<and> loaded \<noteq> [] \<longrightarrow>
            fst r = Resolved () \<and> items (fst (snd r)) = loaded \<and>
            objectStore (snd (snd r)) = objectStore b \<and>
            localStorage (snd (snd r)) = localStorage b)"
proof (intro conjI impI)
  assume a: "fst (getAllItems f1 b) = Resolved [] \<and> localStorage b = Some raw \<and> raw \<noteq> [] \<and>
          JSON_parse raw = Inr its \<and> its \<noteq> [] \<and>
          fst (saveAllItems f2 its (snd (getAllItems f1 b))) = Resolved ()"
  then obtain b1 where b1: "getAllItems f1 b = (Resolved [], b1)" "localStorage b1 = Some raw"
    using getAllItems_Resolved_browser [of f1 b "[]"] by auto
  with a have "fst (saveAllItems f2 its b1) = Resolved ()" by simp
  then have sv: "saveAllItems f2 its b1 =
      (Resolved (), b1\<lparr>objectStore := foldl (\<lambda>w x. store_put x w) [] its\<rparr>)"
    by (rule saveAllItems_resolved)
  from a b1 sv have r: "r = (Resolved (), s\<lparr>isLoading := True, items := its, isLoading := False\<rparr>,
      b1\<lparr>objectStore := foldl (\<lambda>w x. store_put x w) [] its, localStorage := None\<rparr>)"
    unfolding r_def by (simp add: loadItems_def Let_def truthy_def)
  then have st: "objectStore (snd (snd r)) = foldl (\<lambda>w x. store_put x w) [] its"
    by simp
  show "fst r = Resolved ()" by (simp add: r)
  show "items (fst (snd r)) = its" by (simp add: r)
  show "localStorage (snd (snd r)) = None" by (simp add: r)
  show "distinct (map item_id (objectStore (snd (snd r))))"
    by (rule saved_store(1) [OF st])
  show "\<forall>k. record_at (objectStore (snd (snd r))) k = record_at (rev its) k"
    by (simp add: saved_store(2) [OF st])
  show "set (objectStore (snd (snd r))) = set its" if "distinct (map item_id its)"
    using that by (rule saved_store(3) [OF st])
next
  assume a: "fst (getAllItems f1 b) = Resolved loaded \<and> loaded \<noteq> []"
  then obtain b1 where b1: "getAllItems f1 b = (Resolved loaded, b1)"
      "objectStore b1 = objectStore b" "localStorage b1 = localStorage b"
    using getAllItems_Resolved_browser [of f1 b loaded] by auto
  with a have r: "r = (Resolved (), s\<lparr>isLoading := True, items := loaded, isLoading := False\<rparr>, b1)"
    unfolding r_def by (simp add: loadItems_def Let_def)
  show "fst r = Resolved ()" by (simp add: r)
  show "items (fst (snd r)) = loaded" by (simp add: r)
  show "objectStore (snd (snd r)) = objectStore b" by (simp add: r b1)
  show "localStorage (snd (snd r)) = localStorage b" by (simp add: r b1)
qed

theorem loadItems_migration_witness:
  "fst (getAllItems NoFault browser_legacy) = Resolved [] \<and>
   localStorage browser_legacy = Some legacy_text \<and> legacy_text \<noteq> [] \<and>
   JSON_parse_example legacy_text = Inr [item_A] \<and>
   fst (saveAllItems NoFault [item_A] (snd (getAllItems NoFault browser_legacy))) = Resolved () \<and>
   distinct (map item_id [item_A]) \<and>
   loadItems JSON_parse_example NoFault NoFault (initial_app, browser_legacy) =
     (Resolved (), initial_app\<lparr>items := [item_A], isLoading := False\<rparr>, browser_A) \<and>
   fst (getAllItems NoFault (browser_A\<lparr>localStorage := Some legacy_text\<rparr>)) = Resolved [item_A] \<and>
   loadItems JSON_parse_example NoFault NoFault
       (initial_app, browser_A\<lparr>localStorage := Some legacy_text\<rparr>) =
     (Resolved (), initial_app\<lparr>items := [item_A], isLoading := False\<rparr>,
      browser_A\<lparr>localStorage := Some legacy_text\<rparr>)"
  using loadItems_migration [of NoFault browser_legacy legacy_text JSON_parse_example "[item_A]"
      NoFault initial_app "[item_A]"]
    loadItems_migration [of NoFault "browser_A\<lparr>localStorage := Some legacy_text\<rparr>" legacy_text
      JSON_parse_example "[item_A]" NoFault initial_app "[item_A]"]
  by (simp add: loadItems_def getAllItems_def saveAllItems_def initDB_def store_clear_def
        browser_legacy_def browser_A_def JSON_parse_example_def legacy_text_def truthy_def
        initial_app_def item_A_def)

text \<open>When the replace-all of the import is rejected, the slot is kept for a later startup.\<close>

lemma loadItems_write_rejected:
  assumes "fst (getAllItems f1 b) = Resolved []" and "localStorage b = Some raw" and "raw \<noteq> []"
    and "JSON_parse raw = Inr its" and "its \<noteq> []"
    and "fst (saveAllItems f2 its (snd (getAllItems f1 b))) = Rejected e"
  shows "fst (loadItems JSON_parse f1 f2 (s, b)) = Resolved () \<and>
         items (fst (snd (loadItems JSON_parse f1 f2 (s, b)))) = [] \<and>
         objectStore (snd (snd (loadItems JSON_parse f1 f2 (s, b)))) = objectStore b \<and>
         localStorage (snd (snd (loadItems JSON_parse f1 f2 (s, b)))) = Some raw"
proof -
  obtain b1 where b1: "getAllItems f1 b = (Resolved [], b1)" "localStorage b1 = Some raw"
      "objectStore b1 = objectStore b"
    using getAllItems_Resolved_browser [of f1 b "[]"] assms(1,2) by auto
  obtain b2 where b2: "saveAllItems f2 its b1 = (Rejected e, b2)"
    using assms(6) b1 by (cases "saveAllItems f2 its b1") simp
  with saveAllItems_cases [of f2 its b1] saveAllItems_localStorage [of f2 its b1] b1
  have "objectStore b2 = objectStore b" "localStorage b2 = Some raw"
    by simp_all
  with assms b1 b2 show ?thesis
    by (simp add: loadItems_def Let_def truthy_def objectStore_console_error
          localStorage_console_error)
qed


section \<open>Handlers\<close>

text \<open>
  C7. Optimistic delete. Whatever the engine does to the persistence delete, the handler
  itself resolves (the failure is not propagated), the in-memory list afterwards is the
  old one without the items of that \<open>id\<close>, so no item of that \<open>id\<close> is left, and a failed
  delete is logged as ``Error deleting item:''.
\<close>

theorem handleDeleteItem_optimistic:
  "fst (handleDeleteItem f k (s, b)) = Resolved () \<and>
   items (fst (snd (handleDeleteItem f k (s, b)))) = filter (\<lambda>it. item_id it \<noteq> k) (items s) \<and>
   k \<notin> item_id ` set (items (fst (snd (handleDeleteItem f k (s, b))))) \<and>
   console (snd (snd (handleDeleteItem f k (s, b)))) =
     console (snd (deleteItem f k b)) @
       (if fst (deleteItem f k b) = Resolved () then [] else [''Error deleting item:''])"
  by (auto simp: handleDeleteItem_def deleteItem_def initDB_def console_error_def)

text \<open>
  C9. Frame condition of the edit. With edit data whose three fields are not blank, the
  list keeps its length and its order; every item keeps its \<open>id\<close> and its \<open>bought\<close> flag;
  an item with another \<open>id\<close> is unchanged; an item with the edited \<open>id\<close> differs from the
  old one in \<open>name\<close>, \<open>link\<close> and \<open>price\<close> only, which are the trimmed edit data.
\<close>

theorem handleSaveEdit_frame:
  assumes "trim (name (editData s)) \<noteq> []" and "trim (link (editData s)) \<noteq> []"
    and "trim (price (editData s)) \<noteq> []"
  shows "length (items (handleSaveEdit k s)) = length (items s) \<and>
         (\<forall>i<length (items s).
            item_id (items (handleSaveEdit k s) ! i) = item_id (items s ! i) \<and>
            bought (items (handleSaveEdit k s) ! i) = bought (items s ! i) \<and>
            (item_id (items s ! i) \<noteq> k \<longrightarrow> items (handleSaveEdit k s) ! i = items s ! i) \<and>
            (item_id (items s ! i) = k \<longrightarrow>
               items (handleSaveEdit k s) ! i =
                 (items s ! i)\<lparr>name := trim (name (editData s)),
                                link := trim (link (editData s)),
                                price := trim (price (editData s))\<rparr>))"
  using assms by (simp add: handleSaveEdit_def truthy_def)

theorem handleSaveEdit_frame_witness:
  "trim (name (editData editing)) \<noteq> [] \<and> trim (link (editData editing)) \<noteq> [] \<and>
   trim (price (editData editing)) \<noteq> [] \<and>
   items (handleSaveEdit 1000 editing) =
     [headphones\<lparr>name := [0x45, 0x61, 0x72, 0x62, 0x75, 0x64, 0x73],
                  link := [0x68, 0x74, 0x74, 0x70, 0x3A, 0x2F, 0x2F, 0x7A],
                  price := [0x20B9, 0x39, 0x39, 0x39]\<rparr>,
      speakers]"
  using handleSaveEdit_frame [of editing 1000]
  by (simp add: handleSaveEdit_def editing_def headphones_def speakers_def truthy_def trim_def
        is_white_space_def)

text \<open>
  C10. Adding an item. If the name, the link or the price of the form trims to the empty
  string, the handler changes nothing. Otherwise the in-memory list afterwards is the old
  list followed by one new item: its name, link and price are the trimmed form values,
  its \<open>id\<close> is the current time and it is not bought.
\<close>

theorem handleAddItem_blank_or_append:
  "(trim (name (formData s)) = [] \<or> trim (link (formData s)) = [] \<or>
    trim (price (formData s)) = [] \<longrightarrow> handleAddItem now s = s) \<and>
   (trim (name (formData s)) \<noteq> [] \<and> trim (link (formData s)) \<noteq> [] \<and>
    trim (price (formData s)) \<noteq> [] \<longrightarrow>
      items (handleAddItem now s) =
        items s @ [\<lparr>name = trim (name (formData s)), link = trim (link (formData s)),
                     price = trim (price (formData s)), item_id = now, bought = False\<rparr>])"
  by (auto simp: handleAddItem_def truthy_def Let_def)

theorem handleAddItem_blank_or_append_witness:
  "trim (link (formData (initial_app\<lparr>formData := \<lparr>name = [0x41], link = [0x20, 0x09],
      price = [0x31]\<rparr>\<rparr>))) = [] \<and>
   handleAddItem 1000 (initial_app\<lparr>formData := \<lparr>name = [0x41], link = [0x20, 0x09],
      price = [0x31]\<rparr>\<rparr>) =
     initial_app\<lparr>formData := \<lparr>name = [0x41], link = [0x20, 0x09], price = [0x31]\<rparr>\<rparr> \<and>
   trim (name (formData (editing\<lparr>formData := \<lparr>name = [0x41, 0x20], link = [0x78],
      price = [0x20, 0x24, 0x31, 0x30]\<rparr>\<rparr>))) = [0x41] \<and>
   items (handleAddItem 7 (editing\<lparr>formData := \<lparr>name = [0x41, 0x20], link = [0x78],
      price = [0x20, 0x24, 0x31, 0x30]\<rparr>\<rparr>)) =
     [headphones, speakers,
      \<lparr>name = [0x41], link = [0x78], price = [0x24, 0x31, 0x30], item_id = 7, bought = False\<rparr>]"
  using handleAddItem_blank_or_append
      [of "initial_app\<lparr>formData := \<lparr>name = [0x41], link = [0x20, 0x09], price = [0x31]\<rparr>\<rparr>" 1000]
    handleAddItem_blank_or_append
      [of "editing\<lparr>formData := \<lparr>name = [0x41, 0x20], link = [0x78],
          price = [0x20, 0x24, 0x31, 0x30]\<rparr>\<rparr>" 7]
  by (simp add: editing_def initial_app_def trim_def is_white_space_def)

section \<open>The total\<close>

lemma is_digit_enum:
  "is_digit c \<or> c = full_stop \<longleftrightarrow>
     c \<in> {0x30, 0x31, 0x32, 0x33, 0x34, 0x35, 0x36, 0x37, 0x38, 0x39, 0x2E}"
proof
  assume "is_digit c \<or> c = full_stop"
  then show "c \<in> {0x30, 0x31, 0x32, 0x33, 0x34, 0x35, 0x36, 0x37, 0x38, 0x39, 0x2E}"
  proof
    assume "is_digit c"
    then have "48 \<le> unat c" and "unat c \<le> 57"
      by (simp_all add: is_digit_def word_le_nat_alt)
    then have "unat c \<in> {48, 49, 50, 51, 52, 53, 54, 55, 56, 57}"
      by simp arith
    then have "(of_nat (unat c) :: 16 word) \<in> of_nat ` {48, 49, 50, 51, 52, 53, 54, 55, 56, 57}"
      by (rule imageI)
    then show ?thesis
      by simp blast
  next
    assume "c = full_stop"
    then show ?thesis by (simp add: full_stop_def)
  qed
next
  assume "c \<in> {0x30, 0x31, 0x32, 0x33, 0x34, 0x35, 0x36, 0x37, 0x38, 0x39, 0x2E}"
  then show "is_digit c \<or> c = full_stop"
    by (auto simp: is_digit_def full_stop_def)
qed

lemma or_zero_case: "or_zero v = (case v of NaN \<Rightarrow> Num 0 | _ \<Rightarrow> v)"
  by (cases v) (auto simp: or_zero_def)

lemma price_contribution:
  "or_zero (parseFloat (strip_non_numeric p)) = contribution p"
  by (simp add: or_zero_case contribution_def strip_non_numeric_def is_digit_enum
        split: number.splits)

subsection \<open>Whole numbers below \<open>2 ^ 53\<close> are binary64 values\<close>

lemma round_half_even_of_int: "round_half_even (of_int m) = m"
  by (simp add: round_half_even_def)

lemma exponent_of_nat_le:
  assumes "0 < n" and "n < 2 ^ 53"
  shows "exponent (of_nat n) \<le> 52" and "- 1022 \<le> exponent (of_nat n)"
proof -
  have "bitlen (int n) \<le> 53"
    using assms(2) by (simp add: bitlen_le_iff_power)
  moreover have "0 \<le> bitlen (int n)"
    by (rule bitlen_nonneg)
  moreover have "bitlen 1 = 1"
    by (simp add: bitlen_alt_def)
  ultimately show "exponent (of_nat n) \<le> 52" and "- 1022 \<le> exponent (of_nat n)"
    by (simp_all add: exponent_def Let_def)
qed

lemma scale_back:
  assumes "e \<le> 52"
  shows "rat_of_int (round_half_even (rat_of_nat n / 2 powi (e - 52))) * 2 powi (e - 52) =
           rat_of_nat n"
proof -
  define k where "k = nat (52 - e)"
  have q: "(2::rat) powi (e - 52) = inverse (2 ^ k)"
    using assms by (auto simp: power_int_def k_def power_one_over inverse_eq_divide)
  have "rat_of_nat n / 2 powi (e - 52) = of_int (int n * 2 ^ k)"
    by (simp add: q field_simps)
  then have "round_half_even (rat_of_nat n / 2 powi (e - 52)) = int n * 2 ^ k"
    by (simp only: round_half_even_of_int)
  then show ?thesis
    by (simp add: q)
qed

lemma to_double_of_nat:
  assumes "n < 2 ^ 53"
  shows "to_double (of_nat n) = Num (of_nat n)"
proof (cases "n = 0")
  case True
  then show ?thesis by (simp add: to_double_def)
next
  case False
  then have pos: "0 < n" by simp
  have e: "max (exponent (of_nat n)) (- 1022) \<le> 52"
    using exponent_of_nat_le [OF pos assms] by simp
  have "rat_of_nat n < 2 ^ 53"
    using assms by (metis of_nat_less_iff of_nat_numeral of_nat_power)
  also have "\<dots> \<le> 2 ^ 1024"
    by (rule power_increasing) simp_all
  finally have small: "\<not> 2 powi 1024 \<le> rat_of_nat n"
    by simp
  show ?thesis
    using False small by (simp add: to_double_def Let_def scale_back [OF e])
qed

subsection \<open>Prices that are whole numbers\<close>

lemma strip_without_full_stop:
  "full_stop \<notin> set p \<Longrightarrow> strip_non_numeric p = filter is_digit p"
  by (induction p) (auto simp: strip_non_numeric_def)

lemma parseFloat_digits:
  assumes "\<forall>c\<in>set ds. is_digit c"
  shows "parseFloat ds = (if ds = [] then NaN else to_double (of_nat (digits_value ds)))"
proof -
  from assms have tw: "takeWhile is_digit ds = ds" and dw: "dropWhile is_digit ds = []"
    by (simp_all add: takeWhile_eq_all_conv)
  show ?thesis
    by (simp add: parseFloat_def Let_def tw dw)
qed

lemma whole_price_amount:
  assumes "full_stop \<notin> set p" and "price_digits p < 2 ^ 53"
  shows "or_zero (parseFloat (strip_non_numeric p)) = Num (of_nat (price_digits p))"
proof (cases "filter is_digit p = []")
  case True
  then show ?thesis
    using assms(1)
    by (simp add: strip_without_full_stop parseFloat_digits or_zero_def price_digits_def
          digits_value_def)
next
  case False
  then show ?thesis
    using assms
    by (simp add: strip_without_full_stop parseFloat_digits or_zero_def price_digits_def
          to_double_of_nat)
qed

lemma js_add_whole:
  "a + b < 2 ^ 53 \<Longrightarrow> js_add (Num (of_nat a)) (Num (of_nat b)) = Num (of_nat (a + b))"
  using to_double_of_nat [of "a + b"] by simp

lemma foldl_whole_prices:
  assumes "\<forall>it\<in>set xs. full_stop \<notin> set (price it)"
    and "a + sum_list (map (\<lambda>it. price_digits (price it)) xs) < 2 ^ 53"
  shows "foldl (\<lambda>total it. js_add total (or_zero (parseFloat (strip_non_numeric (price it)))))
           (Num (of_nat a)) xs =
         Num (of_nat (a + sum_list (map (\<lambda>it. price_digits (price it)) xs)))"
  using assms
proof (induction xs arbitrary: a)
  case Nil
  then show ?case by simp
next
  case (Cons x xs)
  from Cons.prems have x: "full_stop \<notin> set (price x)" "price_digits (price x) < 2 ^ 53"
    and ax: "a + price_digits (price x) < 2 ^ 53"
    by simp_all
  from Cons.prems
  have rest: "(a + price_digits (price x)) + sum_list (map (\<lambda>it. price_digits (price it)) xs) < 2 ^ 53"
    by (simp add: add.assoc)
  have "js_add (Num (of_nat a)) (or_zero (parseFloat (strip_non_numeric (price x)))) =
          Num (of_nat (a + price_digits (price x)))"
    by (simp only: whole_price_amount [OF x] js_add_whole [OF ax])
  moreover have "\<forall>it\<in>set xs. full_stop \<notin> set (price it)"
    using Cons.prems(1) by simp
  ultimately show ?case
    using Cons.IH [OF _ rest] by (simp add: add.assoc)
qed

subsection \<open>The scenarios\<close>

lemma scenario_added_items:
  "items scenario_added = [headphones, speakers\<lparr>bought := False\<rparr>]"
  by (simp add: scenario_added_def handleAddItem_def initial_app_def
        headphones_def speakers_def truthy_def trim_def is_white_space_def empty_fields_def)

lemma scenario_items: "items scenario = [headphones, speakers]"
  by (simp add: scenario_def handleToggleBought_def scenario_added_items)
     (simp add: headphones_def speakers_def)

lemma to_double_1299: "to_double 1299 = Num 1299"
  using to_double_of_nat [of 1299] by simp

lemma to_double_2500: "to_double 2500 = Num 2500"
  using to_double_of_nat [of 2500] by simp

lemma to_double_3799: "to_double 3799 = Num 3799"
  using to_double_of_nat [of 3799] by simp

lemma to_double_21_2: "to_double (21 / 2) = Num (21 / 2)"
  by code_simp

lemma to_double_43_4: "to_double (43 / 4) = Num (43 / 4)"
  by code_simp

lemma to_double_1_4: "to_double (1 / 4) = Num (1 / 4)"
  by code_simp

text \<open>
  C8. The total of the items not bought. \<open>calculateTotal\<close> adds up, from 0 and in list
  order, the contributions of exactly the items whose \<open>bought\<close> is false; the contribution
  of an item is the number \<open>parseFloat\<close> reads from its price once every character other
  than a digit or \<open>.\<close> is removed, and 0 when nothing can be read. The sum is the
  arithmetic one: when no price of an item still to buy has a full stop and the whole
  numbers their digits write add up to less than \<open>2 ^ 53\<close>, the total is exactly that sum
  (a price without digits counting 0, a bought item not at all). In the scenario of the
  specification (headphones at 1,299 rupees, a second item at 2,500 rupees) the total
  is 3799 while both are still to buy and 1299 once the second is bought; and 10.50
  rupees, a bought item, ``free'' and ``0.25 off'' total 10.75.
\<close>

theorem calculateTotal_unpurchased:
  "calculateTotal s = unpurchased_total (items s) \<and>
   ((\<forall>it\<in>set (items s). \<not> bought it \<longrightarrow> full_stop \<notin> set (price it)) \<and>
    sum_list (map (\<lambda>it. price_digits (price it)) (filter (\<lambda>it. \<not> bought it) (items s)))
      < 2 ^ 53 \<longrightarrow>
      calculateTotal s =
        Num (of_nat (sum_list (map (\<lambda>it. price_digits (price it))
                                (filter (\<lambda>it. \<not> bought it) (items s)))))) \<and>
   calculateTotal scenario = Num 1299 \<and>
   calculateTotal scenario_added = Num 3799 \<and>
   calculateTotal basket = Num (43 / 4)"
proof (intro conjI impI)
  show "calculateTotal s = unpurchased_total (items s)"
    by (simp add: calculateTotal_def unpurchased_total_def price_contribution foldl_map)
next
  assume a: "(\<forall>it\<in>set (items s). \<not> bought it \<longrightarrow> full_stop \<notin> set (price it)) \<and>
    sum_list (map (\<lambda>it. price_digits (price it)) (filter (\<lambda>it. \<not> bought it) (items s)))
      < 2 ^ 53"
  then have "\<forall>it\<in>set (filter (\<lambda>it. \<not> bought it) (items s)). full_stop \<notin> set (price it)"
    by simp
  moreover from a
  have "0 + sum_list (map (\<lambda>it. price_digits (price it)) (filter (\<lambda>it. \<not> bought it) (items s)))
          < 2 ^ 53"
    by simp
  ultimately show "calculateTotal s =
        Num (of_nat (sum_list (map (\<lambda>it. price_digits (price it))
                                (filter (\<lambda>it. \<not> bought it) (items s)))))"
    unfolding calculateTotal_def
    using foldl_whole_prices [of "filter (\<lambda>it. \<not> bought it) (items s)" 0] by simp
next
  show "calculateTotal scenario = Num 1299"
    by (simp add: calculateTotal_def scenario_items headphones_def speakers_def
          strip_non_numeric_def is_digit_def full_stop_def parseFloat_def digits_value_def
          to_double_1299 or_zero_def)
next
  show "calculateTotal scenario_added = Num 3799"
    by (simp add: calculateTotal_def scenario_added_items headphones_def speakers_def
          strip_non_numeric_def is_digit_def full_stop_def parseFloat_def digits_value_def
          to_double_1299 to_double_2500 to_double_3799 or_zero_def)
next
  show "calculateTotal basket = Num (43 / 4)"
    by (simp add: calculateTotal_def basket_def initial_app_def item_A_def headphones_def
          speakers_def strip_non_numeric_def is_digit_def full_stop_def parseFloat_def
          digits_value_def to_double_21_2 to_double_1_4 to_double_43_4 or_zero_def)
qed

theorem calculateTotal_unpurchased_witness:
  "full_stop \<notin> set (price headphones) \<and> full_stop \<notin> set (price speakers) \<and>
   price_digits (price headphones) = 1299 \<and> price_digits (price speakers) = 2500 \<and>
   (1299 + 2500 :: nat) < 2 ^ 53 \<and>
   calculateTotal scenario_added = Num 3799 \<and>
   calculateTotal scenario = Num 1299"
  using calculateTotal_unpurchased [of scenario_added] calculateTotal_unpurchased [of scenario]
  by (simp add: scenario_added_items scenario_items headphones_def speakers_def
        price_digits_def digits_value_def is_digit_def full_stop_def)

end
